theory Spec2Isabelle
  imports Complex_Main "HOL-Library.Log_Nat"
begin

section \<open>Python built-ins used by the client\<close>

text \<open>
  Strings are lists of 8-bit characters, read as the code points below 256 (Latin-1).
  On these code points the definitions below agree with CPython's \<open>str.isspace\<close>,
  \<open>str.strip\<close>, \<open>str.lower\<close>, \<open>str(int)\<close> and \<open>int(str)\<close>. The interpreter's
  limit on converting numerals of more than 4300 digits is left out.
\<close>

datatype value_error =
    InvalidLiteral string    \<comment> \<open>\<open>int(x)\<close>: invalid literal for int() with base 10\<close>
  | NotInList string         \<comment> \<open>\<open>list.remove(x)\<close>: x not in list\<close>
  | ProjectNotFound string   \<comment> \<open>\<open>get_project_by_name\<close>: Project with name ... not found.\<close>

datatype error =
    KeyError string
  | ValueError value_error
  | AttributeError
  | OverflowError

text \<open>\<open>str.isspace\<close> of a single character: the whitespace that \<open>str.strip()\<close> removes.\<close>

definition isspace :: "char \<Rightarrow> bool" where
  "isspace c = (let n = (of_char c :: nat) in
     (9 \<le> n \<and> n \<le> 13) \<or> (28 \<le> n \<and> n \<le> 32) \<or> n = 133 \<or> n = 160)"

definition strip :: "string \<Rightarrow> string" where
  "strip s = rev (dropWhile isspace (rev (dropWhile isspace s)))"

definition lower_char :: "char \<Rightarrow> char" where
  "lower_char c = (let n = (of_char c :: nat) in
     if (65 \<le> n \<and> n \<le> 90) \<or> (192 \<le> n \<and> n \<le> 222 \<and> n \<noteq> 215)
     then char_of (n + 32) else c)"

definition lower :: "string \<Rightarrow> string" where
  "lower s = map lower_char s"

text \<open>\<open>str(i)\<close> for an integer: the decimal numeral, with a minus sign when negative.\<close>

definition digit_char :: "nat \<Rightarrow> char" where
  "digit_char d = char_of (48 + d)"

function str_nat :: "nat \<Rightarrow> string" where
  "str_nat n = (if n < 10 then [digit_char n] else str_nat (n div 10) @ [digit_char (n mod 10)])"
  by pat_completeness auto
termination
  by (relation "measure id") auto

declare str_nat.simps [simp del]

definition str :: "int \<Rightarrow> string" where
  "str i = (if i < 0 then CHR ''-'' # str_nat (nat (- i)) else str_nat (nat i))"

text \<open>
  \<open>int(x)\<close> for a string: surrounding whitespace is dropped (for \<open>int\<close> this is
  tab to carriage return, space, U+0085 and U+00A0), an optional sign follows, then decimal
  digits in which single underscores may separate digits. Anything else raises ValueError.
\<close>

definition int_space :: "char \<Rightarrow> bool" where
  "int_space c = (let n = (of_char c :: nat) in
     (9 \<le> n \<and> n \<le> 13) \<or> n = 32 \<or> n = 133 \<or> n = 160)"

definition is_digit :: "char \<Rightarrow> bool" where
  "is_digit c = (let n = (of_char c :: nat) in 48 \<le> n \<and> n \<le> 57)"

definition digit_val :: "char \<Rightarrow> nat" where
  "digit_val c = of_char c - 48"

fun digits_ok :: "string \<Rightarrow> bool" where
  "digits_ok [] = False"
| "digits_ok [c] = is_digit c"
| "digits_ok (c # d # cs) =
     (is_digit c \<and> (if d = CHR ''_'' then digits_ok cs else digits_ok (d # cs)))"

definition digits_val :: "string \<Rightarrow> nat" where
  "digits_val s = foldl (\<lambda>a c. 10 * a + digit_val c) 0 (filter is_digit s)"

definition int_of_str :: "string \<Rightarrow> error + int" where
  "int_of_str x =
     (let s = rev (dropWhile int_space (rev (dropWhile int_space x)));
          (neg, body) = (case s of
                           c # cs \<Rightarrow> if c = CHR ''-'' then (True, cs)
                                     else if c = CHR ''+'' then (False, cs)
                                     else (False, s)
                         | [] \<Rightarrow> (False, s))
      in if digits_ok body
         then Inr (if neg then - int (digits_val body) else int (digits_val body))
         else Inl (ValueError (InvalidLiteral x)))"

text \<open>
  Python floats are IEEE 754 binary64 numbers. A finite float is kept as the rational it
  denotes. \<open>to_double\<close> rounds a rational to the nearest number with a 53-bit
  significand, ties to the even significand; the exponent is not bounded, so the result is
  the float as long as it lies in the normal range. \<open>binade x\<close> is the exponent of the
  power of two at or below \<open>x\<close>, for positive \<open>x\<close>.
\<close>

datatype number = PyInt int | PyFloat rat

definition round_half_even :: "rat \<Rightarrow> int" where
  "round_half_even x =
     (let f = \<lfloor>x\<rfloor>; r = x - of_int f
      in if r < 1 / 2 then f
         else if 1 / 2 < r then f + 1
         else if even f then f else f + 1)"

definition pow2 :: "int \<Rightarrow> rat" where
  "pow2 e = (if 0 \<le> e then 2 ^ nat e else 1 / 2 ^ nat (- e))"

definition binade :: "rat \<Rightarrow> int" where
  "binade x =
     (let (n, d) = quotient_of x; e = bitlen n - bitlen d
      in if pow2 e \<le> x then e else e - 1)"

definition to_double :: "rat \<Rightarrow> rat" where
  "to_double x =
     (if x = 0 then 0
      else let e = binade \<bar>x\<bar> - 52;
               m = round_half_even (\<bar>x\<bar> / pow2 e)
           in sgn x * of_int m * pow2 e)"

text \<open>
  \<open>float(i)\<close> for an integer, as done by \<open>i / 1000.0\<close> on its left operand: the nearest
  float, OverflowError when that is beyond the largest float.
\<close>

definition float_of_int :: "int \<Rightarrow> error + rat" where
  "float_of_int i =
     (let x = to_double (of_int i)
      in if 2 ^ 1024 \<le> \<bar>x\<bar> then Inl OverflowError else Inr x)"

text \<open>
  Float division \<open>x / y\<close>, for a divisor other than zero and a quotient in the normal
  range; both hold for the one use below, an integer-valued float over 1000.0.
\<close>

definition float_div :: "rat \<Rightarrow> rat \<Rightarrow> rat" where
  "float_div x y = to_double (x / y)"

section \<open>Allocation of task ids\<close>

text \<open>
  The scanning loop of \<open>new_task_id\<close>: \<open>i\<close> is the candidate, \<open>contents\<close> the task id
  sequence. The loop has no bound of its own, so it is a partial function into \<open>option\<close>,
  where \<open>None\<close> stands for not returning.
\<close>

partial_function (option) new_task_id_loop :: "string list \<Rightarrow> int \<Rightarrow> string option" where
  "new_task_id_loop contents i =
     (if str i \<in> set contents then new_task_id_loop contents (i + 1) else Some (str i))"

declare new_task_id_loop.simps [code]

section \<open>The document\<close>

text \<open>
  The document is the parsed JSON blob. Each collection is a sequence of ids and a dict
  from id to record (a dict is a partial map; a missing key raises KeyError). A key on the
  path \<open>globalConfig.misc.defaultProjectId\<close> may be absent (\<open>None\<close>), and the stored
  value may be JSON null.
\<close>

datatype json_str = Null | Str string

record task_details =
  title :: string
  projectId :: "string option"
  task_id :: string
  isDone :: bool
  subTaskIds :: "string list"
  timeSpentOnDay :: "(string \<times> int) list"
  timeSpent :: int
  timeEstimate :: int
  doneOn :: "int option"
  reminderId :: "string option"
  task_notes :: string
  tagIds :: "string list"
  parentId :: "string option"
  plannedAt :: "int option"
  showSubtasksMode :: int
  attachments :: "(string \<rightharpoonup> string) list"
  issueId :: "string option"
  issuePoints :: "int option"
  issueType :: "string option"
  issueAttachmentNr :: "int option"
  issueLastUpdated :: "int option"
  issueWasUpdated :: "bool option"

record project_details =
  project_title :: string
  taskIds :: "string list"

record tag_theme =
  primary :: string
  accent :: string

record tag_details =
  tag_taskIds :: "string list"
  theme :: tag_theme

record 'a collection =
  ids :: "string list"
  entities :: "string \<rightharpoonup> 'a"

record misc_config =
  defaultProjectId :: "json_str option"

record global_config =
  misc :: "misc_config option"

record document =
  task :: "task_details collection"
  project :: "project_details collection"
  tag :: "tag_details collection"
  globalConfig :: "global_config option"
  lastLocalSyncModelChange :: int

text \<open>
  The world outside the process: the remote file, the log of uploads made so far, and the
  wall clock. A reading of \<open>time.time()\<close> is kept as the two views the client takes of it:
  \<open>str(t)\<close> and \<open>int(t * 1000)\<close>. The clock is a sequence of readings, consumed one
  per call.
\<close>

record time_reading =
  as_str :: string
  as_millis :: int

record world =
  remote :: document
  uploads :: "document list"
  clock :: "nat \<Rightarrow> time_reading"
  clock_reads :: nat

definition time_time :: "world \<Rightarrow> time_reading \<times> world" where
  "time_time w = (clock w (clock_reads w), w\<lparr>clock_reads := clock_reads w + 1\<rparr>)"

text \<open>
  \<open>SupProd.contents\<close>: every access downloads the remote file again. The client is
  the only writer while a method runs, so each access within a method reads the same
  document. Failures of the transport (download or upload) are outside the model.
\<close>

definition contents :: "world \<Rightarrow> document" where
  "contents w = remote w"

text \<open>\<open>d[k]\<close> on a dict.\<close>

definition getitem :: "(string \<rightharpoonup> 'a) \<Rightarrow> string \<Rightarrow> error + 'a" where
  "getitem d k = (case d k of None \<Rightarrow> Inl (KeyError k) | Some v \<Rightarrow> Inr v)"

text \<open>\<open>xs.remove(x)\<close> on a list: the first occurrence goes, ValueError when there is none.\<close>

definition list_remove :: "string list \<Rightarrow> string \<Rightarrow> error + string list" where
  "list_remove xs x =
     (if x \<in> set xs then Inr (remove1 x xs) else Inl (ValueError (NotInList x)))"

section \<open>Attachment\<close>

record Attachment =
  path :: string
  att_title :: string
  attachment_type :: string

definition from_attachment :: "(string \<rightharpoonup> string) \<Rightarrow> error + Attachment" where
  "from_attachment d =
     (case getitem d ''path'' of Inl e \<Rightarrow> Inl e | Inr p \<Rightarrow>
     (case getitem d ''title'' of Inl e \<Rightarrow> Inl e | Inr t \<Rightarrow>
     (case getitem d ''type'' of Inl e \<Rightarrow> Inl e | Inr ty \<Rightarrow>
        Inr \<lparr>path = p, att_title = t, attachment_type = ty\<rparr>)))"

text \<open>The property \<open>Attachment.attachment\<close>: the storage dict, with an id read off the clock.\<close>

definition attachment :: "Attachment \<Rightarrow> world \<Rightarrow> (string \<rightharpoonup> string) \<times> world" where
  "attachment a w =
     (let (t, w') = time_time w
      in ([''type'' \<mapsto> attachment_type a, ''path'' \<mapsto> path a,
           ''title'' \<mapsto> att_title a, ''id'' \<mapsto> as_str t], w'))"

text \<open>\<open>list(map(lambda x: x.attachment, urls))\<close>: one clock reading per attachment, in order.\<close>

fun attachments_of :: "Attachment list \<Rightarrow> world \<Rightarrow> (string \<rightharpoonup> string) list \<times> world" where
  "attachments_of [] w = ([], w)"
| "attachments_of (a # as) w =
     (let (d, w') = attachment a w; (ds, w'') = attachments_of as w' in (d # ds, w''))"

section \<open>Task and Project views\<close>

text \<open>
  A \<open>Task\<close> view holds the task record; its properties read the record. \<open>title\<close> strips
  surrounding whitespace from the stored title, and \<open>done_at\<close> is \<open>doneOn / 1000.0\<close>,
  or the integer 0 when \<open>doneOn\<close> is null.
\<close>

definition Task_title :: "task_details \<Rightarrow> string" where
  "Task_title t = strip (title t)"

definition Task_done :: "task_details \<Rightarrow> bool" where
  "Task_done t = isDone t"

definition Task_done_at :: "task_details \<Rightarrow> error + number" where
  "Task_done_at t =
     (case doneOn t of
        None \<Rightarrow> Inr (PyInt 0)
      | Some d \<Rightarrow>
         (case float_of_int d of
            Inl e \<Rightarrow> Inl e
          | Inr x \<Rightarrow> Inr (PyFloat (float_div x 1000))))"

record Project =
  proj_id :: string
  proj_details :: project_details

definition Project_title :: "Project \<Rightarrow> string" where
  "Project_title p = project_title (proj_details p)"

section \<open>The document accessor\<close>

text \<open>
  \<open>update_contents\<close> stamps the document with \<open>int(time.time() * 1000)\<close> and uploads it,
  overwriting the remote file.
\<close>

definition update_contents :: "document \<Rightarrow> world \<Rightarrow> world" where
  "update_contents doc w =
     (let (t, w') = time_time w;
          doc' = doc\<lparr>lastLocalSyncModelChange := as_millis t\<rparr>
      in w'\<lparr>remote := doc', uploads := uploads w' @ [doc']\<rparr>)"

definition new_task_id :: "world \<Rightarrow> string option" where
  "new_task_id w = new_task_id_loop (ids (task (contents w))) 1"

text \<open>The comprehension \<open>[f(x, entities[x]) for x in ids]\<close>: the first missing key raises.\<close>

fun lookup_each :: "(string \<rightharpoonup> 'a) \<Rightarrow> string list \<Rightarrow> error + (string \<times> 'a) list" where
  "lookup_each d [] = Inr []"
| "lookup_each d (x # xs) =
     (case getitem d x of Inl e \<Rightarrow> Inl e | Inr v \<Rightarrow>
     (case lookup_each d xs of Inl e \<Rightarrow> Inl e | Inr vs \<Rightarrow> Inr ((x, v) # vs)))"

definition all_tasks :: "world \<Rightarrow> error + task_details list" where
  "all_tasks w =
     (let c = task (contents w)
      in case lookup_each (entities c) (ids c) of Inl e \<Rightarrow> Inl e
         | Inr xs \<Rightarrow> Inr (map snd xs))"

definition tasks :: "world \<Rightarrow> error + task_details list" where
  "tasks w = (case all_tasks w of Inl e \<Rightarrow> Inl e
              | Inr ts \<Rightarrow> Inr (filter (\<lambda>x. \<not> Task_done x) ts))"

definition or_None :: "json_str \<Rightarrow> string option" where
  "or_None v = (case v of Null \<Rightarrow> None | Str s \<Rightarrow> if s = [] then None else Some s)"

definition default_project_id :: "world \<Rightarrow> string option" where
  "default_project_id w =
     (case globalConfig (contents w) of None \<Rightarrow> None | Some g \<Rightarrow>
     (case misc g of None \<Rightarrow> None | Some m \<Rightarrow>
     (case defaultProjectId m of None \<Rightarrow> None | Some v \<Rightarrow> or_None v)))"

definition get_task_by_title :: "world \<Rightarrow> string \<Rightarrow> error + task_details option" where
  "get_task_by_title w ttl =
     (case tasks w of Inl e \<Rightarrow> Inl e
      | Inr ts \<Rightarrow>
          (case filter (\<lambda>x. Task_title x = ttl) ts of
             [] \<Rightarrow> Inr None
           | c # _ \<Rightarrow> Inr (Some c)))"

definition new_task :: "string \<Rightarrow> string option \<Rightarrow> string \<Rightarrow> int
    \<Rightarrow> (string \<rightharpoonup> string) list \<Rightarrow> task_details" where
  "new_task task_title pid tid time_estimate atts =
     \<lparr>title = task_title, projectId = pid, task_id = tid, isDone = False,
      subTaskIds = [], timeSpentOnDay = [], timeSpent = 0, timeEstimate = time_estimate,
      doneOn = None, reminderId = None, task_notes = [], tagIds = [], parentId = None,
      plannedAt = None, showSubtasksMode = 2, attachments = atts,
      issueId = None, issuePoints = None, issueType = None, issueAttachmentNr = None,
      issueLastUpdated = None, issueWasUpdated = None\<rparr>"

text \<open>\<open>contents["project"]["entities"][project_id]["taskIds"].append(task_id)\<close>\<close>

definition project_append :: "string \<Rightarrow> string \<Rightarrow> document \<Rightarrow> error + document" where
  "project_append pid tid doc =
     (case getitem (entities (project doc)) pid of Inl e \<Rightarrow> Inl e
      | Inr p \<Rightarrow>
          Inr (doc\<lparr>project := (project doc)\<lparr>entities :=
                 (entities (project doc))(pid \<mapsto> p\<lparr>taskIds := taskIds p @ [tid]\<rparr>)\<rparr>\<rparr>))"

text \<open>
  \<open>contents["task"]["entities"][task_id]["tagIds"].append("TODAY")\<close>, then
  \<open>contents["tag"]["entities"]["TODAY"]["taskIds"].append(task_id)\<close>
\<close>

definition tag_today :: "string \<Rightarrow> document \<Rightarrow> error + document" where
  "tag_today tid doc =
     (case getitem (entities (task doc)) tid of Inl e \<Rightarrow> Inl e
      | Inr t \<Rightarrow>
          let doc1 = doc\<lparr>task := (task doc)\<lparr>entities :=
                       (entities (task doc))(tid \<mapsto> t\<lparr>tagIds := tagIds t @ [''TODAY'']\<rparr>)\<rparr>\<rparr>
          in (case getitem (entities (tag doc1)) ''TODAY'' of Inl e \<Rightarrow> Inl e
              | Inr g \<Rightarrow>
                  Inr (doc1\<lparr>tag := (tag doc1)\<lparr>entities :=
                         (entities (tag doc1))(''TODAY'' \<mapsto>
                            g\<lparr>tag_taskIds := tag_taskIds g @ [tid]\<rparr>)\<rparr>\<rparr>)))"

text \<open>
  The expression \<open>project_id or self.default_project_id\<close>: \<open>None\<close> and the empty string
  are falsy, and only then is the default looked up.
\<close>

definition project_id_or_default :: "string option \<Rightarrow> world \<Rightarrow> string option" where
  "project_id_or_default project_id w =
     (case project_id of
        None \<Rightarrow> default_project_id w
      | Some p \<Rightarrow> if p = [] then default_project_id w else Some p)"

text \<open>
  \<open>create_task\<close>. The result is \<open>None\<close> when the id scan does not return, \<open>Some (Inl e)\<close>
  when an exception leaves the method (nothing is uploaded then), and \<open>Some (Inr w')\<close>
  with the world after a normal return.
\<close>

definition create_task :: "string \<Rightarrow> string option \<Rightarrow> bool \<Rightarrow> bool \<Rightarrow> int \<Rightarrow> Attachment list
    \<Rightarrow> world \<Rightarrow> (error + world) option" where
  "create_task task_title project_id is_today is_unique time_estimate atts w =
     (let pid = project_id_or_default project_id w;
          urls = atts
      in (case (if is_unique then get_task_by_title w task_title else Inr None) of
            Inl e \<Rightarrow> Some (Inl e)
          | Inr (Some _) \<Rightarrow> Some (Inr w)
          | Inr None \<Rightarrow>
             (case new_task_id w of
                None \<Rightarrow> None
              | Some tid \<Rightarrow>
                 (let doc = contents w;
                      (ds, w1) = attachments_of urls w;
                      doc1 = doc\<lparr>task := (task doc)\<lparr>
                               ids := ids (task doc) @ [tid],
                               entities := (entities (task doc))(tid \<mapsto>
                                 new_task task_title pid tid time_estimate ds)\<rparr>\<rparr>
                  in (case (case pid of None \<Rightarrow> Inr doc1
                            | Some p \<Rightarrow> project_append p tid doc1) of
                        Inl e \<Rightarrow> Some (Inl e)
                      | Inr doc2 \<Rightarrow>
                         (case (if is_today \<or> pid = None then tag_today tid doc2
                                else Inr doc2) of
                            Inl e \<Rightarrow> Some (Inl e)
                          | Inr doc3 \<Rightarrow> Some (Inr (update_contents doc3 w1))))))))"

text \<open>
  One pass of the body of the \<open>try\<close> in \<open>cleanup_manual\<close> for the id \<open>x\<close>. The dicts
  are changed in place, so a statement that raises leaves the changes made before it: the
  result is the exception raised, if any, and the document as it stands then.
\<close>

definition cleanup_step :: "string \<Rightarrow> document \<Rightarrow> error option \<times> document" where
  "cleanup_step x doc =
     (case int_of_str x of Inl e \<Rightarrow> (Some e, doc) | Inr _ \<Rightarrow>
     (case getitem (entities (task doc)) x of Inl e \<Rightarrow> (Some e, doc) | Inr _ \<Rightarrow>
     (let doc1 = doc\<lparr>task := (task doc)\<lparr>entities := (entities (task doc))(x := None)\<rparr>\<rparr>
      in (case list_remove (ids (task doc1)) x of Inl e \<Rightarrow> (Some e, doc1) | Inr rest \<Rightarrow>
     (let doc2 = doc1\<lparr>task := (task doc1)\<lparr>ids := rest\<rparr>\<rparr>
      in (case getitem (entities (project doc2)) ''DEFAULT'' of
            Inl e \<Rightarrow> (Some e, doc2) | Inr p \<Rightarrow>
     (case list_remove (taskIds p) x of Inl e \<Rightarrow> (Some e, doc2) | Inr ps \<Rightarrow>
     (let doc3 = doc2\<lparr>project := (project doc2)\<lparr>entities :=
                   (entities (project doc2))(''DEFAULT'' \<mapsto> p\<lparr>taskIds := ps\<rparr>)\<rparr>\<rparr>
      in (case getitem (entities (tag doc3)) ''TODAY'' of
            Inl e \<Rightarrow> (Some e, doc3) | Inr g \<Rightarrow>
     (case list_remove (tag_taskIds g) x of Inl e \<Rightarrow> (Some e, doc3) | Inr gs \<Rightarrow>
        (None, doc3\<lparr>tag := (tag doc3)\<lparr>entities :=
                 (entities (tag doc3))(''TODAY'' \<mapsto> g\<lparr>tag_taskIds := gs\<rparr>)\<rparr>\<rparr>)))))))))))"

lemma cleanup_step_length:
  "length (ids (task (snd (cleanup_step x doc)))) \<le> length (ids (task doc))"
  by (simp add: cleanup_step_def list_remove_def Let_def length_remove1
      split: sum.split option.split)

text \<open>
  The \<open>for\<close> loop of \<open>cleanup_manual\<close>. A Python list iterator holds an index into the
  list: each round it stops when the index has reached the current length, and yields the
  element at the index otherwise. The list is the one the body removes from. The handler
  catches AttributeError only; any other exception leaves the loop.
\<close>

function cleanup_loop :: "nat \<Rightarrow> document \<Rightarrow> error + document" where
  "cleanup_loop i doc =
     (if i < length (ids (task doc))
      then (let r = cleanup_step (ids (task doc) ! i) doc
            in (case fst r of
                  None \<Rightarrow> cleanup_loop (i + 1) (snd r)
                | Some e \<Rightarrow> if e = AttributeError then cleanup_loop (i + 1) (snd r)
                            else Inl e))
      else Inr doc)"
  by pat_completeness auto
termination
proof (relation "measure (\<lambda>(i, doc). length (ids (task doc)) - i)")
  show "wf (measure (\<lambda>(i, doc). length (ids (task doc)) - i))" by simp
next
  fix i :: nat and doc :: document and r
  assume "i < length (ids (task doc))" and "r = cleanup_step (ids (task doc) ! i) doc"
  then show "((i + 1, snd r), (i, doc)) \<in> measure (\<lambda>(i, doc). length (ids (task doc)) - i)"
    using cleanup_step_length [of "ids (task doc) ! i" doc] by simp
next
  fix i :: nat and doc :: document and r
  assume "i < length (ids (task doc))" and "r = cleanup_step (ids (task doc) ! i) doc"
  then show "((i + 1, snd r), (i, doc)) \<in> measure (\<lambda>(i, doc). length (ids (task doc)) - i)"
    using cleanup_step_length [of "ids (task doc) ! i" doc] by simp
qed

declare cleanup_loop.simps [simp del]

definition cleanup_manual :: "world \<Rightarrow> error + world" where
  "cleanup_manual w =
     (case cleanup_loop 0 (contents w) of
        Inl e \<Rightarrow> Inl e
      | Inr doc \<Rightarrow> Inr (update_contents doc w))"

definition projects :: "world \<Rightarrow> error + Project list" where
  "projects w =
     (let c = project (contents w)
      in (case lookup_each (entities c) (ids c) of
            Inl e \<Rightarrow> Inl e
          | Inr xs \<Rightarrow> Inr (map (\<lambda>(x, d). \<lparr>proj_id = x, proj_details = d\<rparr>) xs)))"

definition get_project_by_name :: "string \<Rightarrow> bool \<Rightarrow> world \<Rightarrow> error + Project" where
  "get_project_by_name name case_insensitive w =
     (let name' = (if case_insensitive then lower name else name)
      in (case projects w of
            Inl e \<Rightarrow> Inl e
          | Inr ps \<Rightarrow>
             (case find (\<lambda>x. (if case_insensitive then lower (Project_title x)
                                else Project_title x) = name') ps of
                Some x \<Rightarrow> Inr x
              | None \<Rightarrow> Inl (ValueError (ProjectNotFound name')))))"

text \<open>A world like \<open>w\<close> whose remote document has the task id sequence \<open>xs\<close>.\<close>

definition with_task_ids :: "string list \<Rightarrow> world \<Rightarrow> world" where
  "with_task_ids xs w = w\<lparr>remote := (remote w)\<lparr>task := (task (remote w))\<lparr>ids := xs\<rparr>\<rparr>\<rparr>"

section \<open>Example documents\<close>

text \<open>
  A small document for the concrete evaluations below: the tasks listed as pairs of id and
  stored title, all in the project DEFAULT and tagged TODAY, a second project P1 titled
  Work, and P1 as the configured default project.
\<close>

definition example_task :: "string \<Rightarrow> string \<Rightarrow> task_details" where
  "example_task k t = (new_task t (Some ''DEFAULT'') k 0 [])\<lparr>tagIds := [''TODAY'']\<rparr>"

definition example_doc :: "(string \<times> string) list \<Rightarrow> document" where
  "example_doc kts =
     \<lparr>task = \<lparr>ids = map fst kts,
              entities = map_of (map (\<lambda>(k, t). (k, example_task k t)) kts)\<rparr>,
      project = \<lparr>ids = [''DEFAULT'', ''P1''],
                 entities = [''DEFAULT'' \<mapsto> \<lparr>project_title = ''Inbox'', taskIds = map fst kts\<rparr>,
                             ''P1'' \<mapsto> \<lparr>project_title = ''Work'', taskIds = []\<rparr>]\<rparr>,
      tag = \<lparr>ids = [''TODAY''],
             entities = [''TODAY'' \<mapsto> \<lparr>tag_taskIds = map fst kts,
                                         theme = \<lparr>primary = ''#000'', accent = ''#fff''\<rparr>\<rparr>]\<rparr>,
      globalConfig = Some \<lparr>misc = Some \<lparr>defaultProjectId = Some (Str ''P1'')\<rparr>\<rparr>,
      lastLocalSyncModelChange = 0\<rparr>"

definition example_world :: "document \<Rightarrow> world" where
  "example_world doc =
     \<lparr>remote = doc, uploads = [],
      clock = (\<lambda>n. \<lparr>as_str = ''1700000000.'' @ str (int n), as_millis = 1700000000000 + int n\<rparr>),
      clock_reads = 0\<rparr>"

definition example_attachment :: "string \<rightharpoonup> string" where
  "example_attachment = [''type'' \<mapsto> ''LINK'', ''path'' \<mapsto> ''http://x'', ''title'' \<mapsto> ''t'']"

definition example_projects :: "Project list" where
  "example_projects =
     [\<lparr>proj_id = ''DEFAULT'', proj_details = \<lparr>project_title = ''Inbox'', taskIds = []\<rparr>\<rparr>,
      \<lparr>proj_id = ''P1'', proj_details = \<lparr>project_title = ''Work'', taskIds = []\<rparr>\<rparr>]"

definition example_doc_no_default :: document where
  "example_doc_no_default =
     (example_doc [])\<lparr>globalConfig := Some \<lparr>misc = Some \<lparr>defaultProjectId = Some (Str [])\<rparr>\<rparr>\<rparr>"

text \<open>
  What a call left behind: the exception it raised, the documents it uploaded (the example
  worlds start with no upload), and the id lists read off a document.
\<close>

definition raised :: "error + 'a \<Rightarrow> error option" where
  "raised r = (case r of Inl e \<Rightarrow> Some e | Inr _ \<Rightarrow> None)"

definition written :: "error + world \<Rightarrow> document list" where
  "written r = (case r of Inl e \<Rightarrow> [] | Inr w \<Rightarrow> uploads w)"

definition task_ids_of :: "document \<Rightarrow> string list" where
  "task_ids_of doc = ids (task doc)"

definition project_task_ids :: "string \<Rightarrow> document \<Rightarrow> string list option" where
  "project_task_ids p doc = map_option taskIds (entities (project doc) p)"

definition tag_task_ids :: "string \<Rightarrow> document \<Rightarrow> string list option" where
  "tag_task_ids g doc = map_option tag_taskIds (entities (tag doc) g)"

section \<open>Decimal numerals are injective\<close>

lemma digit_val_digit_char: "d < 10 \<Longrightarrow> digit_val (digit_char d) = d"
  by (simp add: digit_val_def digit_char_def)

lemma is_digit_digit_char: "d < 10 \<Longrightarrow> is_digit (digit_char d)"
  by (simp add: is_digit_def digit_char_def)

lemma str_nat_digits: "c \<in> set (str_nat n) \<Longrightarrow> is_digit c"
proof (induction n arbitrary: c rule: str_nat.induct)
  case (1 n)
  show ?case
  proof (cases "n < 10")
    case True
    with "1.prems" show ?thesis
      by (simp add: str_nat.simps [of n] is_digit_digit_char)
  next
    case False
    with "1.prems" have "c \<in> set (str_nat (n div 10)) \<or> c = digit_char (n mod 10)"
      by (auto simp: str_nat.simps [of n])
    then show ?thesis
      using "1.IH" False by (auto simp: is_digit_digit_char)
  qed
qed

lemma digits_val_str_nat: "digits_val (str_nat n) = n"
proof (induction n rule: str_nat.induct)
  case (1 n)
  show ?case
  proof (cases "n < 10")
    case True
    then show ?thesis
      by (simp add: str_nat.simps [of n] digits_val_def digit_val_digit_char
          is_digit_digit_char)
  next
    case False
    then have "digits_val (str_nat n) = 10 * digits_val (str_nat (n div 10)) + n mod 10"
      by (simp add: str_nat.simps [of n] digits_val_def digit_val_digit_char
          is_digit_digit_char)
    with "1.IH" False show ?thesis by simp
  qed
qed

lemma str_nat_inj: "str_nat m = str_nat n \<Longrightarrow> m = n"
  by (metis digits_val_str_nat)

lemma str_nat_no_minus: "str_nat n \<noteq> CHR ''-'' # s"
proof
  assume h: "str_nat n = CHR ''-'' # s"
  have "CHR ''-'' \<in> set (str_nat n)" by (simp add: h)
  then have "is_digit CHR ''-''" by (rule str_nat_digits)
  then show False by (simp add: is_digit_def)
qed

lemma str_inj: "str i = str j \<Longrightarrow> i = j"
  unfolding str_def
  by (auto split: if_splits simp: str_nat_no_minus str_nat_no_minus [symmetric] dest!: str_nat_inj)

lemma loop_reach:
  "str (i + int k) \<notin> set cs \<Longrightarrow> (\<forall>j<k. str (i + int j) \<in> set cs)
   \<Longrightarrow> new_task_id_loop cs i = Some (str (i + int k))"
proof (induction k arbitrary: i)
  case 0
  then show ?case by (subst new_task_id_loop.simps) simp
next
  case (Suc k)
  from Suc.prems(2) have here: "str i \<in> set cs" by force
  have shift: "i + 1 + int j = i + int (Suc j)" for j by simp
  have nxt: "str (i + 1 + int k) \<notin> set cs"
    unfolding shift by (rule Suc.prems(1))
  have below: "\<forall>j<k. str (i + 1 + int j) \<in> set cs"
  proof (intro allI impI)
    fix j assume "j < k"
    then have "str (i + int (Suc j)) \<in> set cs" using Suc.prems(2) by blast
    then show "str (i + 1 + int j) \<in> set cs" unfolding shift .
  qed
  have "new_task_id_loop cs (i + 1) = Some (str (i + 1 + int k))"
    by (rule Suc.IH [OF nxt below])
  then have "new_task_id_loop cs (i + 1) = Some (str (i + int (Suc k)))"
    unfolding shift .
  then show ?case
    using here by (subst new_task_id_loop.simps) simp
qed

lemma absent_exists: "\<exists>k. str (i + int k) \<notin> set cs"
proof (rule ccontr)
  assume "\<not> ?thesis"
  then have sub: "range (\<lambda>k. str (i + int k)) \<subseteq> set cs" by auto
  have "inj (\<lambda>k. str (i + int k))"
    by (rule injI) (auto dest: str_inj)
  then have "infinite (range (\<lambda>k::nat. str (i + int k)))"
    using finite_imageD infinite_UNIV_nat by blast
  with sub show False
    using finite_subset by blast
qed

lemma loop_least:
  "new_task_id_loop cs i = Some (str (i + int (LEAST k. str (i + int k) \<notin> set cs)))"
proof (rule loop_reach)
  show "str (i + int (LEAST k. str (i + int k) \<notin> set cs)) \<notin> set cs"
    using absent_exists [of i cs] by (rule exE) (rule LeastI)
  show "\<forall>j<LEAST k. str (i + int k) \<notin> set cs. str (i + int j) \<in> set cs"
    using not_less_Least by blast
qed

section \<open>The id scan\<close>

text \<open>
  From candidate \<open>i\<close> the scan returns the first \<open>i + k\<close> whose numeral is not in the
  sequence. Such a \<open>k\<close> exists: the numerals of \<open>i, i + 1, \<dots>\<close> are pairwise distinct,
  and the sequence holds finitely many strings.
\<close>

lemma least_positive:
  "(LEAST n. 0 < n \<and> str (int n) \<notin> set cs) = Suc (LEAST k. str (1 + int k) \<notin> set cs)"
proof (rule Least_equality)
  have "str (1 + int (LEAST k. str (1 + int k) \<notin> set cs)) \<notin> set cs"
    using absent_exists [of 1 cs] by (rule exE) (rule LeastI)
  then show "0 < Suc (LEAST k. str (1 + int k) \<notin> set cs)
      \<and> str (int (Suc (LEAST k. str (1 + int k) \<notin> set cs))) \<notin> set cs"
    by (simp add: add.commute)
next
  fix y :: nat
  assume h: "0 < y \<and> str (int y) \<notin> set cs"
  then obtain y' where y: "y = Suc y'" by (cases y) auto
  with h have "str (1 + int y') \<notin> set cs" by (simp add: add.commute)
  then have "(LEAST k. str (1 + int k) \<notin> set cs) \<le> y'" by (rule Least_le)
  with y show "Suc (LEAST k. str (1 + int k) \<notin> set cs) \<le> y" by simp
qed

lemma new_task_id_eq:
  "new_task_id w = Some (str (int (LEAST n. 0 < n \<and> str (int n) \<notin> set (ids (task (remote w))))))"
  by (simp add: new_task_id_def contents_def loop_least least_positive add.commute)


lemma loop_returns:
  "\<exists>k. new_task_id_loop cs i = Some (str (i + int k)) \<and> str (i + int k) \<notin> set cs"
proof -
  have "str (i + int (LEAST k. str (i + int k) \<notin> set cs)) \<notin> set cs"
    using absent_exists [of i cs] by (rule exE) (rule LeastI)
  then show ?thesis
    using loop_least [of cs i] by blast
qed

lemma new_task_id_returns:
  "\<exists>y. new_task_id w = Some y \<and> y \<notin> set (ids (task (remote w)))"
  using loop_returns [of "ids (task (remote w))" 1]
  by (auto simp: new_task_id_def contents_def)

lemma str_small: "str 1 = ''1''" "str 2 = ''2''" "str 3 = ''3''"
  by code_simp+

text \<open>
  Claim C4. \<open>new_task_id\<close> returns the numeral of the smallest positive integer whose
  numeral is not in the task id sequence; for the ids 1, 2, 4 it returns 3, and for the
  empty sequence it returns 1.
\<close>

theorem new_task_id_smallest_absent:
  "new_task_id w =
     Some (str (int (LEAST n. 0 < n \<and> str (int n) \<notin> set (ids (task (remote w))))))
   \<and> new_task_id (with_task_ids [''1'', ''2'', ''4''] w) = Some ''3''
   \<and> new_task_id (with_task_ids [] w) = Some ''1''"
proof (intro conjI)
  show "new_task_id w =
     Some (str (int (LEAST n. 0 < n \<and> str (int n) \<notin> set (ids (task (remote w))))))"
    by (rule new_task_id_eq)
next
  have "new_task_id_loop [''1'', ''2'', ''4''] 1 = Some (str (1 + int 2))"
    by (rule loop_reach) (simp_all add: str_small less_Suc_eq numeral_2_eq_2)
  then show "new_task_id (with_task_ids [''1'', ''2'', ''4''] w) = Some ''3''"
    by (simp add: new_task_id_def contents_def with_task_ids_def str_small)
next
  have "new_task_id_loop [] 1 = Some (str (1 + int 0))"
    by (rule loop_reach) simp_all
  then show "new_task_id (with_task_ids [] w) = Some ''1''"
    by (simp add: new_task_id_def contents_def with_task_ids_def str_small)
qed

text \<open>
  Claim C10. The scan terminates on every task id sequence and from every starting
  candidate: it returns a numeral that is not in the sequence, reached after finitely
  many increments. So \<open>new_task_id\<close> always returns.
\<close>

theorem new_task_id_loop_terminates:
  "(\<exists>k. new_task_id_loop cs i = Some (str (i + int k)) \<and> str (i + int k) \<notin> set cs)
   \<and> (\<exists>y. new_task_id w = Some y \<and> y \<notin> set (ids (task (remote w))))"
  using loop_returns [of cs i] new_task_id_returns [of w] by (rule conjI)

section \<open>Writing the document back\<close>

text \<open>
  Claim C6. \<open>update_contents doc\<close> uploads \<open>doc\<close> with \<open>lastLocalSyncModelChange\<close> set to
  the clock reading in epoch milliseconds, as one more upload, and every other part of the
  uploaded document is the part of \<open>doc\<close>.
\<close>

theorem update_contents_stamp_only:
  "remote (update_contents doc w) = doc\<lparr>lastLocalSyncModelChange := as_millis (fst (time_time w))\<rparr>
   \<and> uploads (update_contents doc w) = uploads w @ [remote (update_contents doc w)]
   \<and> lastLocalSyncModelChange (remote (update_contents doc w)) = as_millis (fst (time_time w))
   \<and> task (remote (update_contents doc w)) = task doc
   \<and> project (remote (update_contents doc w)) = project doc
   \<and> tag (remote (update_contents doc w)) = tag doc
   \<and> globalConfig (remote (update_contents doc w)) = globalConfig doc"
  by (simp add: update_contents_def time_time_def Let_def)

section \<open>Attachments\<close>

text \<open>
  Claim C8. For a storage dict with the keys type, path and title, \<open>from_attachment\<close>
  succeeds, and converting the result back to storage form gives a dict with the same
  type, path and title; its id is the clock reading taken at the conversion, whatever id
  the original had.
\<close>

theorem attachment_round_trip:
  assumes "d ''type'' = Some ty" and "d ''path'' = Some p" and "d ''title'' = Some t"
  shows "\<exists>a. from_attachment d = Inr a
     \<and> fst (attachment a w) ''type'' = Some ty
     \<and> fst (attachment a w) ''path'' = Some p
     \<and> fst (attachment a w) ''title'' = Some t
     \<and> fst (attachment a w) ''id'' = Some (as_str (fst (time_time w)))
     \<and> dom (fst (attachment a w)) = {''type'', ''path'', ''title'', ''id''}"
  using assms
  by (auto simp: from_attachment_def getitem_def attachment_def time_time_def split: if_splits)

theorem attachment_round_trip_witness:
  "example_attachment ''type'' = Some ''LINK''
   \<and> example_attachment ''path'' = Some ''http://x''
   \<and> example_attachment ''title'' = Some ''t''
   \<and> (\<exists>a. from_attachment example_attachment = Inr a
     \<and> fst (attachment a (example_world (example_doc []))) ''type'' = Some ''LINK''
     \<and> fst (attachment a (example_world (example_doc []))) ''path'' = Some ''http://x''
     \<and> fst (attachment a (example_world (example_doc []))) ''title'' = Some ''t''
     \<and> fst (attachment a (example_world (example_doc []))) ''id''
         = Some (as_str (fst (time_time (example_world (example_doc [])))))
     \<and> dom (fst (attachment a (example_world (example_doc []))))
         = {''type'', ''path'', ''title'', ''id''})"
proof -
  have h: "example_attachment ''type'' = Some ''LINK''"
    "example_attachment ''path'' = Some ''http://x''"
    "example_attachment ''title'' = Some ''t''"
    by (simp_all add: example_attachment_def)
  show ?thesis
    using h attachment_round_trip [OF h, of "example_world (example_doc [])"] by blast
qed


section \<open>Creating a task\<close>

text \<open>
  What \<open>create_task\<close> does when it gets past the uniqueness check: \<open>r\<close> is the resolved
  project id. It needs the project \<open>r\<close>, when there is one, and the tag TODAY, when the
  task is tagged, to be in the document; a missing one raises KeyError.
\<close>

lemma project_append_Some:
  "entities (project doc) q = Some p \<Longrightarrow>
   project_append q tid doc =
     Inr (doc\<lparr>project := (project doc)\<lparr>entities :=
            (entities (project doc))(q \<mapsto> p\<lparr>taskIds := taskIds p @ [tid]\<rparr>)\<rparr>\<rparr>)"
  by (simp add: project_append_def getitem_def)

lemma tag_today_Some:
  "entities (task doc) tid = Some t \<Longrightarrow> entities (tag doc) ''TODAY'' = Some g \<Longrightarrow>
   tag_today tid doc =
     Inr (doc\<lparr>task := (task doc)\<lparr>entities :=
                 (entities (task doc))(tid \<mapsto> t\<lparr>tagIds := tagIds t @ [''TODAY'']\<rparr>)\<rparr>,
              tag := (tag doc)\<lparr>entities :=
                 (entities (tag doc))(''TODAY'' \<mapsto> g\<lparr>tag_taskIds := tag_taskIds g @ [tid]\<rparr>)\<rparr>\<rparr>)"
  by (simp add: tag_today_def getitem_def Let_def)

lemma create_task_steps:
  assumes "is_unique \<longrightarrow> get_task_by_title w ttl = Inr None"
    and "new_task_id w = Some tid"
    and "project_id_or_default project_id w = r"
    and "doc1 = (remote w)\<lparr>task := (task (remote w))\<lparr>
                   ids := ids (task (remote w)) @ [tid],
                   entities := (entities (task (remote w)))(tid \<mapsto>
                      new_task ttl r tid est (fst (attachments_of atts w)))\<rparr>\<rparr>"
    and "(case r of None \<Rightarrow> Inr doc1 | Some q \<Rightarrow> project_append q tid doc1) = Inr doc2"
    and "(if is_today \<or> r = None then tag_today tid doc2 else Inr doc2) = Inr doc3"
  shows "create_task ttl project_id is_today is_unique est atts w =
           Some (Inr (update_contents doc3 (snd (attachments_of atts w))))"
proof -
  have u: "(if is_unique then get_task_by_title w ttl else Inr None) = Inr None"
    using assms(1) by simp
  show ?thesis
    unfolding create_task_def Let_def u assms(2) assms(3) contents_def split_beta
      assms(4) [symmetric] sum.case option.case assms(5) assms(6)
    by (rule refl)
qed

lemma remote_update_contents:
  "task (remote (update_contents doc w)) = task doc"
  "project (remote (update_contents doc w)) = project doc"
  "tag (remote (update_contents doc w)) = tag doc"
  "globalConfig (remote (update_contents doc w)) = globalConfig doc"
  "uploads (update_contents doc w) = uploads w @ [remote (update_contents doc w)]"
  by (simp_all add: update_contents_def time_time_def Let_def)

lemma attachments_of_uploads: "uploads (snd (attachments_of as w)) = uploads w"
  by (induction as arbitrary: w)
     (simp_all add: attachment_def time_time_def split_beta Let_def)

lemma create_task_creates:
  assumes uniq: "is_unique \<longrightarrow> get_task_by_title w ttl = Inr None"
    and r: "project_id_or_default project_id w = r"
    and proj: "r = None \<or> r = Some q \<and> entities (project (remote w)) q = Some p"
    and today: "is_today \<or> r = None \<Longrightarrow> entities (tag (remote w)) ''TODAY'' = Some g"
  shows "\<exists>tid w'. new_task_id w = Some tid \<and> tid \<notin> set (ids (task (remote w)))
     \<and> create_task ttl project_id is_today is_unique est atts w = Some (Inr w')
     \<and> ids (task (remote w')) = ids (task (remote w)) @ [tid]
     \<and> entities (task (remote w')) = (entities (task (remote w)))(tid \<mapsto>
           (new_task ttl r tid est (fst (attachments_of atts w)))
             \<lparr>tagIds := if is_today \<or> r = None then [''TODAY''] else []\<rparr>)
     \<and> entities (project (remote w')) =
          (if r = None then entities (project (remote w))
           else (entities (project (remote w)))(q \<mapsto> p\<lparr>taskIds := taskIds p @ [tid]\<rparr>))
     \<and> entities (tag (remote w')) =
          (if is_today \<or> r = None
           then (entities (tag (remote w)))(''TODAY'' \<mapsto> g\<lparr>tag_taskIds := tag_taskIds g @ [tid]\<rparr>)
           else entities (tag (remote w)))
     \<and> uploads w' = uploads w @ [remote w']"
proof -
  obtain tid where tid: "new_task_id w = Some tid" "tid \<notin> set (ids (task (remote w)))"
    using new_task_id_returns by blast
  define t0 where "t0 = new_task ttl r tid est (fst (attachments_of atts w))"
  define doc1 where "doc1 = (remote w)\<lparr>task := (task (remote w))\<lparr>
                   ids := ids (task (remote w)) @ [tid],
                   entities := (entities (task (remote w)))(tid \<mapsto> t0)\<rparr>\<rparr>"
  define doc2 where "doc2 = (if r = None then doc1 else doc1\<lparr>project := (project doc1)\<lparr>entities :=
            (entities (project doc1))(q \<mapsto> p\<lparr>taskIds := taskIds p @ [tid]\<rparr>)\<rparr>\<rparr>)"
  define doc3 where "doc3 = (if is_today \<or> r = None then doc2\<lparr>task := (task doc2)\<lparr>entities :=
                 (entities (task doc2))(tid \<mapsto> t0\<lparr>tagIds := tagIds t0 @ [''TODAY'']\<rparr>)\<rparr>,
              tag := (tag doc2)\<lparr>entities :=
                 (entities (tag doc2))(''TODAY'' \<mapsto> g\<lparr>tag_taskIds := tag_taskIds g @ [tid]\<rparr>)\<rparr>\<rparr>
            else doc2)"
  have s1: "doc1 = (remote w)\<lparr>task := (task (remote w))\<lparr>
                   ids := ids (task (remote w)) @ [tid],
                   entities := (entities (task (remote w)))(tid \<mapsto>
                      new_task ttl r tid est (fst (attachments_of atts w)))\<rparr>\<rparr>"
    by (simp add: doc1_def t0_def)
  have s2: "(case r of None \<Rightarrow> Inr doc1 | Some q \<Rightarrow> project_append q tid doc1) = Inr doc2"
    using proj by (auto simp: project_append_Some doc1_def doc2_def)
  have e2: "entities (task doc2) tid = Some t0" "entities (tag doc2) = entities (tag (remote w))"
    by (simp_all add: doc2_def doc1_def)
  have s3: "(if is_today \<or> r = None then tag_today tid doc2 else Inr doc2) = Inr doc3"
  proof (cases "is_today \<or> r = None")
    case True
    then have "entities (tag doc2) ''TODAY'' = Some g" using today e2 by simp
    with True e2(1) show ?thesis by (simp add: tag_today_Some doc3_def)
  next
    case False
    then have f: "(is_today \<or> r = None) = False" by simp
    show ?thesis unfolding doc3_def f by simp
  qed
  have c: "create_task ttl project_id is_today is_unique est atts w =
           Some (Inr (update_contents doc3 (snd (attachments_of atts w))))"
    by (rule create_task_steps [OF uniq tid(1) r s1 s2 s3])
  have t0: "tagIds t0 = []" "t0\<lparr>tagIds := []\<rparr> = t0" by (simp_all add: t0_def new_task_def)
  have "ids (task doc3) = ids (task (remote w)) @ [tid]"
    by (simp add: doc3_def doc2_def doc1_def)
  moreover have "entities (task doc3) = (entities (task (remote w)))(tid \<mapsto>
           t0\<lparr>tagIds := if is_today \<or> r = None then [''TODAY''] else []\<rparr>)"
    by (simp add: doc3_def doc2_def doc1_def t0)
  moreover have "entities (project doc3) =
          (if r = None then entities (project (remote w))
           else (entities (project (remote w)))(q \<mapsto> p\<lparr>taskIds := taskIds p @ [tid]\<rparr>))"
    by (simp add: doc3_def doc2_def doc1_def)
  moreover have "entities (tag doc3) =
          (if is_today \<or> r = None
           then (entities (tag (remote w)))(''TODAY'' \<mapsto> g\<lparr>tag_taskIds := tag_taskIds g @ [tid]\<rparr>)
           else entities (tag (remote w)))"
    by (simp add: doc3_def doc2_def doc1_def)
  ultimately show ?thesis
    using tid c unfolding t0_def
    by (intro exI [of _ tid] exI [of _ "update_contents doc3 (snd (attachments_of atts w))"])
       (simp add: remote_update_contents attachments_of_uploads)
qed


text \<open>Facts about the example document.\<close>

lemma example_new_task_id: "new_task_id (example_world (example_doc [])) = Some ''1''"
proof -
  have "new_task_id_loop [] 1 = Some (str (1 + int 0))"
    by (rule loop_reach) simp_all
  then show ?thesis
    by (simp add: new_task_id_def contents_def example_world_def example_doc_def str_small)
qed

lemma example_default: "default_project_id (example_world (example_doc kts)) = Some ''P1''"
  by (simp add: default_project_id_def contents_def example_world_def example_doc_def or_None_def)

lemma example_P1:
  "entities (project (remote (example_world (example_doc kts)))) ''P1''
     = Some \<lparr>project_title = ''Work'', taskIds = []\<rparr>"
  by (simp add: example_world_def example_doc_def)

lemma example_TODAY:
  "entities (tag (remote (example_world (example_doc kts)))) ''TODAY''
     = Some \<lparr>tag_taskIds = map fst kts, theme = \<lparr>primary = ''#000'', accent = ''#fff''\<rparr>\<rparr>"
  by (simp add: example_world_def example_doc_def)

text \<open>
  Claim C5. On a document whose configured default project is P1 (with the project P1 and
  the tag TODAY present), \<open>create_task(title)\<close> with every other argument at its default
  returns after appending one fresh id to the task id sequence, storing under it a record
  with the given title, \<open>isDone\<close> false, \<open>projectId\<close> P1 and \<open>tagIds\<close> [TODAY],
  appending the id to the \<open>taskIds\<close> of P1 and of TODAY, and uploading once. For any
  arguments, the new task is tagged TODAY exactly when \<open>is_today\<close> holds or no project
  was resolved.
\<close>

theorem create_task_default_project:
  "(default_project_id w = Some ''P1''
      \<and> entities (project (remote w)) ''P1'' = Some p
      \<and> entities (tag (remote w)) ''TODAY'' = Some g \<longrightarrow>
    (\<exists>tid w' t. new_task_id w = Some tid
       \<and> create_task ttl None True False 0 [] w = Some (Inr w')
       \<and> tid \<notin> set (ids (task (remote w)))
       \<and> ids (task (remote w')) = ids (task (remote w)) @ [tid]
       \<and> entities (task (remote w')) = (entities (task (remote w)))(tid \<mapsto> t)
       \<and> title t = ttl \<and> \<not> isDone t \<and> projectId t = Some ''P1'' \<and> tagIds t = [''TODAY'']
       \<and> entities (project (remote w')) =
            (entities (project (remote w)))(''P1'' \<mapsto> p\<lparr>taskIds := taskIds p @ [tid]\<rparr>)
       \<and> entities (tag (remote w')) =
            (entities (tag (remote w)))(''TODAY'' \<mapsto> g\<lparr>tag_taskIds := tag_taskIds g @ [tid]\<rparr>)
       \<and> uploads w' = uploads w @ [remote w']))
   \<and> ((is_unique \<longrightarrow> get_task_by_title v ttl' = Inr None)
      \<and> (project_id_or_default project_id v = None
           \<or> project_id_or_default project_id v = Some q
              \<and> entities (project (remote v)) q = Some p')
      \<and> entities (tag (remote v)) ''TODAY'' = Some g' \<longrightarrow>
    (\<exists>tid v' t. new_task_id v = Some tid
       \<and> create_task ttl' project_id is_today is_unique est atts v = Some (Inr v')
       \<and> entities (task (remote v')) tid = Some t
       \<and> (''TODAY'' \<in> set (tagIds t)
            \<longleftrightarrow> is_today \<or> project_id_or_default project_id v = None)
       \<and> entities (tag (remote v')) =
            (if is_today \<or> project_id_or_default project_id v = None
             then (entities (tag (remote v)))(''TODAY'' \<mapsto>
                    g'\<lparr>tag_taskIds := tag_taskIds g' @ [tid]\<rparr>)
             else entities (tag (remote v)))))"
proof (intro conjI impI)
  assume h: "default_project_id w = Some ''P1''
      \<and> entities (project (remote w)) ''P1'' = Some p
      \<and> entities (tag (remote w)) ''TODAY'' = Some g"
  have r: "project_id_or_default None w = Some ''P1''"
    using h by (simp add: project_id_or_default_def)
  have "Some ''P1'' = None \<or> Some ''P1'' = Some ''P1'' \<and> entities (project (remote w)) ''P1'' = Some p"
    using h by simp
  from create_task_creates [OF _ r this, where is_unique = False and ttl = ttl
      and is_today = True and g = g and est = 0 and atts = "[]"] h
  obtain tid w' where c: "new_task_id w = Some tid" "tid \<notin> set (ids (task (remote w)))"
     "create_task ttl None True False 0 [] w = Some (Inr w')"
     "ids (task (remote w')) = ids (task (remote w)) @ [tid]"
     "entities (task (remote w')) = (entities (task (remote w)))(tid \<mapsto>
           (new_task ttl (Some ''P1'') tid 0 [])\<lparr>tagIds := [''TODAY'']\<rparr>)"
     "entities (project (remote w')) =
           (entities (project (remote w)))(''P1'' \<mapsto> p\<lparr>taskIds := taskIds p @ [tid]\<rparr>)"
     "entities (tag (remote w')) =
           (entities (tag (remote w)))(''TODAY'' \<mapsto> g\<lparr>tag_taskIds := tag_taskIds g @ [tid]\<rparr>)"
     "uploads w' = uploads w @ [remote w']"
    by auto
  have "title ((new_task ttl (Some ''P1'') tid 0 [])\<lparr>tagIds := [''TODAY'']\<rparr>) = ttl"
    "\<not> isDone ((new_task ttl (Some ''P1'') tid 0 [])\<lparr>tagIds := [''TODAY'']\<rparr>)"
    "projectId ((new_task ttl (Some ''P1'') tid 0 [])\<lparr>tagIds := [''TODAY'']\<rparr>) = Some ''P1''"
    "tagIds ((new_task ttl (Some ''P1'') tid 0 [])\<lparr>tagIds := [''TODAY'']\<rparr>) = [''TODAY'']"
    by (simp_all add: new_task_def)
  with c show "\<exists>tid w' t. new_task_id w = Some tid
       \<and> create_task ttl None True False 0 [] w = Some (Inr w')
       \<and> tid \<notin> set (ids (task (remote w)))
       \<and> ids (task (remote w')) = ids (task (remote w)) @ [tid]
       \<and> entities (task (remote w')) = (entities (task (remote w)))(tid \<mapsto> t)
       \<and> title t = ttl \<and> \<not> isDone t \<and> projectId t = Some ''P1'' \<and> tagIds t = [''TODAY'']
       \<and> entities (project (remote w')) =
            (entities (project (remote w)))(''P1'' \<mapsto> p\<lparr>taskIds := taskIds p @ [tid]\<rparr>)
       \<and> entities (tag (remote w')) =
            (entities (tag (remote w)))(''TODAY'' \<mapsto> g\<lparr>tag_taskIds := tag_taskIds g @ [tid]\<rparr>)
       \<and> uploads w' = uploads w @ [remote w']"
    by blast
next
  assume h: "(is_unique \<longrightarrow> get_task_by_title v ttl' = Inr None)
      \<and> (project_id_or_default project_id v = None
           \<or> project_id_or_default project_id v = Some q
              \<and> entities (project (remote v)) q = Some p')
      \<and> entities (tag (remote v)) ''TODAY'' = Some g'"
  define r where "r = project_id_or_default project_id v"
  have u: "is_unique \<longrightarrow> get_task_by_title v ttl' = Inr None" using h by simp
  have pr: "r = None \<or> r = Some q \<and> entities (project (remote v)) q = Some p'"
    using h by (simp add: r_def)
  have tg: "entities (tag (remote v)) ''TODAY'' = Some g'" using h by simp
  from create_task_creates [OF u r_def [symmetric] pr tg, where is_today = is_today
      and est = est and atts = atts]
  obtain tid v' where c: "new_task_id v = Some tid"
     "create_task ttl' project_id is_today is_unique est atts v = Some (Inr v')"
     "entities (task (remote v')) = (entities (task (remote v)))(tid \<mapsto>
           (new_task ttl' r tid est (fst (attachments_of atts v)))
             \<lparr>tagIds := if is_today \<or> r = None then [''TODAY''] else []\<rparr>)"
     "entities (tag (remote v')) =
          (if is_today \<or> r = None
           then (entities (tag (remote v)))(''TODAY'' \<mapsto> g'\<lparr>tag_taskIds := tag_taskIds g' @ [tid]\<rparr>)
           else entities (tag (remote v)))"
    by auto
  show "\<exists>tid v' t. new_task_id v = Some tid
       \<and> create_task ttl' project_id is_today is_unique est atts v = Some (Inr v')
       \<and> entities (task (remote v')) tid = Some t
       \<and> (''TODAY'' \<in> set (tagIds t)
            \<longleftrightarrow> is_today \<or> project_id_or_default project_id v = None)
       \<and> entities (tag (remote v')) =
            (if is_today \<or> project_id_or_default project_id v = None
             then (entities (tag (remote v)))(''TODAY'' \<mapsto>
                    g'\<lparr>tag_taskIds := tag_taskIds g' @ [tid]\<rparr>)
             else entities (tag (remote v)))"
    using c unfolding r_def [symmetric]
    by (intro exI [of _ tid] exI [of _ v']
        exI [of _ "(new_task ttl' r tid est (fst (attachments_of atts v)))
             \<lparr>tagIds := if is_today \<or> r = None then [''TODAY''] else []\<rparr>"]) simp
qed


theorem create_task_default_project_witness:
  "(\<exists>w' t. create_task ''Buy milk'' None True False 0 [] (example_world (example_doc []))
             = Some (Inr w')
      \<and> ids (task (remote w')) = [''1'']
      \<and> entities (task (remote w')) ''1'' = Some t
      \<and> title t = ''Buy milk'' \<and> \<not> isDone t \<and> projectId t = Some ''P1''
      \<and> tagIds t = [''TODAY'']
      \<and> map_option taskIds (entities (project (remote w')) ''P1'') = Some [''1'']
      \<and> map_option tag_taskIds (entities (tag (remote w')) ''TODAY'') = Some [''1'']
      \<and> length (uploads w') = 1)
   \<and> (\<exists>v' t. create_task ''Buy milk'' None False False 0 [] (example_world (example_doc []))
             = Some (Inr v')
      \<and> entities (task (remote v')) ''1'' = Some t
      \<and> ''TODAY'' \<notin> set (tagIds t)
      \<and> entities (tag (remote v')) = entities (tag (remote (example_world (example_doc [])))))"
proof -
  let ?w = "example_world (example_doc [])"
  have r: "project_id_or_default None ?w = Some ''P1''"
    by (simp add: project_id_or_default_def example_default)
  note inst = create_task_default_project [where w = ?w and v = ?w and ttl = "''Buy milk''"
      and ttl' = "''Buy milk''" and is_unique = False and is_today = False
      and project_id = None and q = "''P1''" and est = 0 and atts = "[]"
      and p = "\<lparr>project_title = ''Work'', taskIds = []\<rparr>"
      and p' = "\<lparr>project_title = ''Work'', taskIds = []\<rparr>"
      and g = "\<lparr>tag_taskIds = [], theme = \<lparr>primary = ''#000'', accent = ''#fff''\<rparr>\<rparr>"
      and g' = "\<lparr>tag_taskIds = [], theme = \<lparr>primary = ''#000'', accent = ''#fff''\<rparr>\<rparr>",
      unfolded example_default example_P1 example_TODAY example_new_task_id r]
  have u: "uploads ?w = []" "ids (task (remote ?w)) = []"
    by (simp_all add: example_world_def example_doc_def)
  show ?thesis
    using inst u by auto
qed

text \<open>
  Claim C9. \<open>default_project_id\<close> is \<open>None\<close> exactly when a key on the path
  \<open>globalConfig.misc.defaultProjectId\<close> is missing or the stored value is null or the
  empty string, and is the stored string otherwise. \<open>create_task\<close> with \<open>project_id\<close>
  \<open>None\<close> or the empty string resolves the project this way; when the resolution gives
  \<open>None\<close> (and the tag TODAY is in the document), the call with \<open>is_today = False\<close>
  returns with the new task carrying no project and the tag TODAY, its id appended to
  the \<open>taskIds\<close> of TODAY, and no project changed.
\<close>

theorem default_project_id_fallback:
  "(default_project_id w = None \<longleftrightarrow>
      globalConfig (remote w) = None
      \<or> (\<exists>c. globalConfig (remote w) = Some c
            \<and> (misc c = None
               \<or> (\<exists>m. misc c = Some m
                     \<and> (defaultProjectId m = None \<or> defaultProjectId m = Some Null
                        \<or> defaultProjectId m = Some (Str []))))))
   \<and> (default_project_id w = Some s \<longleftrightarrow>
        s \<noteq> [] \<and> (\<exists>c m. globalConfig (remote w) = Some c \<and> misc c = Some m
                        \<and> defaultProjectId m = Some (Str s)))
   \<and> project_id_or_default None w = default_project_id w
   \<and> project_id_or_default (Some []) w = default_project_id w
   \<and> ((project_id = None \<or> project_id = Some [])
        \<and> default_project_id w = None
        \<and> entities (tag (remote w)) ''TODAY'' = Some g
        \<and> (is_unique \<longrightarrow> get_task_by_title w ttl = Inr None) \<longrightarrow>
      (\<exists>tid w' t. new_task_id w = Some tid
         \<and> create_task ttl project_id False is_unique est atts w = Some (Inr w')
         \<and> entities (task (remote w')) tid = Some t
         \<and> projectId t = None
         \<and> tagIds t = [''TODAY'']
         \<and> entities (tag (remote w')) =
              (entities (tag (remote w)))(''TODAY'' \<mapsto>
                 g\<lparr>tag_taskIds := tag_taskIds g @ [tid]\<rparr>)
         \<and> entities (project (remote w')) = entities (project (remote w))))"
proof (intro conjI impI)
  show "default_project_id w = None \<longleftrightarrow>
      globalConfig (remote w) = None
      \<or> (\<exists>c. globalConfig (remote w) = Some c
            \<and> (misc c = None
               \<or> (\<exists>m. misc c = Some m
                     \<and> (defaultProjectId m = None \<or> defaultProjectId m = Some Null
                        \<or> defaultProjectId m = Some (Str [])))))"
    by (auto simp: default_project_id_def contents_def or_None_def
        split: option.splits json_str.splits if_splits)
  show "default_project_id w = Some s \<longleftrightarrow>
        s \<noteq> [] \<and> (\<exists>c m. globalConfig (remote w) = Some c \<and> misc c = Some m
                        \<and> defaultProjectId m = Some (Str s))"
    by (auto simp: default_project_id_def contents_def or_None_def
        split: option.splits json_str.splits if_splits)
  show "project_id_or_default None w = default_project_id w"
    "project_id_or_default (Some []) w = default_project_id w"
    by (simp_all add: project_id_or_default_def)
next
  assume h: "(project_id = None \<or> project_id = Some [])
        \<and> default_project_id w = None
        \<and> entities (tag (remote w)) ''TODAY'' = Some g
        \<and> (is_unique \<longrightarrow> get_task_by_title w ttl = Inr None)"
  then have r: "project_id_or_default project_id w = None"
    by (auto simp: project_id_or_default_def)
  have pr: "None = None \<or> None = Some q \<and> entities (project (remote w)) q = Some p" for q p
    by simp
  from create_task_creates [OF _ r pr, where is_unique = is_unique and ttl = ttl
      and is_today = False and g = g and est = est and atts = atts] h
  obtain tid w' where c: "new_task_id w = Some tid"
     "create_task ttl project_id False is_unique est atts w = Some (Inr w')"
     "entities (task (remote w')) = (entities (task (remote w)))(tid \<mapsto>
           (new_task ttl None tid est (fst (attachments_of atts w)))\<lparr>tagIds := [''TODAY'']\<rparr>)"
     "entities (project (remote w')) = entities (project (remote w))"
     "entities (tag (remote w')) =
          (entities (tag (remote w)))(''TODAY'' \<mapsto> g\<lparr>tag_taskIds := tag_taskIds g @ [tid]\<rparr>)"
    by auto
  show "\<exists>tid w' t. new_task_id w = Some tid
         \<and> create_task ttl project_id False is_unique est atts w = Some (Inr w')
         \<and> entities (task (remote w')) tid = Some t
         \<and> projectId t = None
         \<and> tagIds t = [''TODAY'']
         \<and> entities (tag (remote w')) =
              (entities (tag (remote w)))(''TODAY'' \<mapsto>
                 g\<lparr>tag_taskIds := tag_taskIds g @ [tid]\<rparr>)
         \<and> entities (project (remote w')) = entities (project (remote w))"
    using c
    by (intro exI [of _ tid] exI [of _ w']
        exI [of _ "(new_task ttl None tid est (fst (attachments_of atts w)))
             \<lparr>tagIds := [''TODAY'']\<rparr>"]) (simp add: new_task_def)
qed

theorem default_project_id_fallback_witness:
  "default_project_id (example_world example_doc_no_default) = None
   \<and> (\<exists>w' t. create_task ''Buy milk'' (Some []) False False 0 []
                (example_world example_doc_no_default) = Some (Inr w')
         \<and> entities (task (remote w')) ''1'' = Some t
         \<and> projectId t = None
         \<and> tagIds t = [''TODAY'']
         \<and> map_option tag_taskIds (entities (tag (remote w')) ''TODAY'') = Some [''1''])"
proof -
  let ?w = "example_world example_doc_no_default"
  have d: "default_project_id ?w = None"
    by (simp add: default_project_id_def contents_def example_world_def
        example_doc_no_default_def or_None_def)
  have n: "new_task_id ?w = Some ''1''"
    by code_simp
  have g: "entities (tag (remote ?w)) ''TODAY''
     = Some \<lparr>tag_taskIds = [], theme = \<lparr>primary = ''#000'', accent = ''#fff''\<rparr>\<rparr>"
    by (simp add: example_world_def example_doc_no_default_def example_doc_def)
  note inst = default_project_id_fallback [where w = ?w and project_id = "Some []"
      and is_unique = False and ttl = "''Buy milk''" and est = 0 and atts = "[]" and s = "[]"
      and g = "\<lparr>tag_taskIds = [], theme = \<lparr>primary = ''#000'', accent = ''#fff''\<rparr>\<rparr>"]
  then have "\<exists>tid w' t. new_task_id ?w = Some tid
         \<and> create_task ''Buy milk'' (Some []) False False 0 [] ?w = Some (Inr w')
         \<and> entities (task (remote w')) tid = Some t
         \<and> projectId t = None
         \<and> tagIds t = [''TODAY'']
         \<and> entities (tag (remote w')) =
              (entities (tag (remote ?w)))(''TODAY'' \<mapsto>
                 \<lparr>tag_taskIds = [], theme = \<lparr>primary = ''#000'', accent = ''#fff''\<rparr>\<rparr>
                   \<lparr>tag_taskIds := tag_taskIds
                      \<lparr>tag_taskIds = [], theme = \<lparr>primary = ''#000'', accent = ''#fff''\<rparr>\<rparr>
                      @ [tid]\<rparr>)
         \<and> entities (project (remote w')) = entities (project (remote ?w))"
    using d g by blast
  then obtain tid w' t where c: "new_task_id ?w = Some tid"
      "create_task ''Buy milk'' (Some []) False False 0 [] ?w = Some (Inr w')"
      "entities (task (remote w')) tid = Some t" "projectId t = None" "tagIds t = [''TODAY'']"
      "entities (tag (remote w')) =
              (entities (tag (remote ?w)))(''TODAY'' \<mapsto>
                 \<lparr>tag_taskIds = [], theme = \<lparr>primary = ''#000'', accent = ''#fff''\<rparr>\<rparr>
                   \<lparr>tag_taskIds := tag_taskIds
                      \<lparr>tag_taskIds = [], theme = \<lparr>primary = ''#000'', accent = ''#fff''\<rparr>\<rparr>
                      @ [tid]\<rparr>)"
    by blast
  from c(1) n have tid: "tid = ''1''" by simp
  have "map_option tag_taskIds (entities (tag (remote w')) ''TODAY'') = Some [''1'']"
    by (simp add: c(6) tid)
  with c tid d show ?thesis by blast
qed

section \<open>The uniqueness check\<close>






section \<open>Removing the numbered tasks\<close>

text \<open>
  Claim C1, evaluated. With the task ids 1 and 2, both in DEFAULT and TODAY,
  \<open>cleanup_manual\<close> uploads a document that still has the task 2 everywhere: removing 1
  moves 2 to index 0, and the iterator goes on at index 1. With a task id that is not a
  numeral, \<open>int\<close> raises ValueError, which the handler for AttributeError does not
  catch: the call raises and uploads nothing.
\<close>

theorem cleanup_manual_example:
  "map task_ids_of
      (written (cleanup_manual (example_world (example_doc [(''1'', ''a''), (''2'', ''b'')]))))
     = [[''2'']]
   \<and> map (project_task_ids ''DEFAULT'')
      (written (cleanup_manual (example_world (example_doc [(''1'', ''a''), (''2'', ''b'')]))))
     = [Some [''2'']]
   \<and> map (tag_task_ids ''TODAY'')
      (written (cleanup_manual (example_world (example_doc [(''1'', ''a''), (''2'', ''b'')]))))
     = [Some [''2'']]
   \<and> raised (cleanup_manual (example_world (example_doc [(''k3Jx'', ''c'')])))
     = Some (ValueError (InvalidLiteral ''k3Jx''))
   \<and> written (cleanup_manual (example_world (example_doc [(''k3Jx'', ''c'')]))) = []"
  by code_simp

section \<open>Looking a project up by name\<close>

text \<open>
  Claim C3. With \<open>case_insensitive\<close> at its default \<open>True\<close>, \<open>get_project_by_name\<close>
  returns a project whose title equals the query up to letter case when there is one, and
  raises the ValueError "Project with name ... not found." when there is none. A project
  titled Work is returned for the query work.
\<close>

theorem get_project_by_name_case_insensitive:
  assumes "projects w = Inr ps"
  shows "((\<exists>p\<in>set ps. lower (Project_title p) = lower name) \<longrightarrow>
            (\<exists>p\<in>set ps. get_project_by_name name True w = Inr p
                \<and> lower (Project_title p) = lower name))
       \<and> ((\<forall>p\<in>set ps. lower (Project_title p) \<noteq> lower name') \<longrightarrow>
            get_project_by_name name' True w = Inl (ValueError (ProjectNotFound (lower name'))))"
proof (intro conjI impI)
  assume "\<exists>p\<in>set ps. lower (Project_title p) = lower name"
  then obtain p where "find (\<lambda>x. lower (Project_title x) = lower name) ps = Some p"
    by (cases "find (\<lambda>x. lower (Project_title x) = lower name) ps")
       (auto simp: find_None_iff)
  moreover from this have "p \<in> set ps \<and> lower (Project_title p) = lower name"
    by (auto simp: find_Some_iff)
  ultimately show "\<exists>p\<in>set ps. get_project_by_name name True w = Inr p
      \<and> lower (Project_title p) = lower name"
    using assms by (auto simp: get_project_by_name_def)
next
  assume "\<forall>p\<in>set ps. lower (Project_title p) \<noteq> lower name'"
  then have "find (\<lambda>x. lower (Project_title x) = lower name') ps = None"
    by (simp add: find_None_iff)
  then show "get_project_by_name name' True w = Inl (ValueError (ProjectNotFound (lower name')))"
    using assms by (simp add: get_project_by_name_def)
qed

lemma ex_projects: "projects (example_world (example_doc [])) = Inr example_projects"
  by (simp add: projects_def contents_def example_world_def example_doc_def getitem_def
      example_projects_def)

lemma lower_examples:
  "lower ''Work'' = ''work''" "lower ''work'' = ''work''" "lower ''Inbox'' = ''inbox''"
  "lower ''nonexistent'' = ''nonexistent''"
  by code_simp+

theorem get_project_by_name_case_insensitive_witness:
  "projects (example_world (example_doc [])) = Inr example_projects
   \<and> map_sum id Project_title
        (get_project_by_name ''work'' True (example_world (example_doc []))) = Inr ''Work''
   \<and> raised (get_project_by_name ''nonexistent'' True (example_world (example_doc [])))
        = Some (ValueError (ProjectNotFound ''nonexistent''))"
  using get_project_by_name_case_insensitive [OF ex_projects, of "''work''" "''nonexistent''"]
  by (auto simp: ex_projects example_projects_def Project_title_def lower_examples raised_def)

section \<open>Completion time\<close>

text \<open>An integer below \<open>2 ^ 53\<close> in magnitude is a float: rounding leaves it as it is.\<close>

lemma round_half_even_int: "round_half_even (of_int k) = k"
  by (simp add: round_half_even_def)

lemma binade_int:
  assumes "0 < k"
  shows "binade (of_int k) = bitlen k - 1"
proof -
  have b: "bitlen 1 = 1" by (simp add: bitlen_alt_def)
  have "1 \<le> bitlen k" using assms by (simp add: bitlen_alt_def)
  then have "pow2 (bitlen k - 1) = of_int (2 ^ nat (bitlen k - 1))"
    by (simp add: pow2_def)
  moreover have "2 ^ nat (bitlen k - 1) \<le> k"
    using bitlen_bounds [OF assms] by simp
  ultimately have "pow2 (bitlen k - 1) \<le> of_int k"
    by (simp only: of_int_le_iff)
  then show ?thesis
    by (simp add: binade_def b)
qed

lemma bitlen_53:
  assumes "0 < k" and "k < 2 ^ 53"
  shows "bitlen k \<le> 53"
proof (rule ccontr)
  assume "\<not> bitlen k \<le> 53"
  then have "53 \<le> nat (bitlen k - 1)" by simp
  then have "(2::int) ^ 53 \<le> 2 ^ nat (bitlen k - 1)"
    by (rule power_increasing) simp
  also have "\<dots> \<le> k" using bitlen_bounds [OF assms(1)] by simp
  finally show False using assms(2) by simp
qed

lemma to_double_pos_int:
  assumes "0 < k" and "k < 2 ^ 53"
  shows "to_double (of_int k) = of_int k"
proof -
  define j where "j = nat (53 - bitlen k)"
  have e: "binade (of_int k) - 52 = - int j"
    using assms bitlen_53 [OF assms] by (simp add: binade_int j_def)
  have p: "pow2 (- int j) = 1 / 2 ^ j"
    by (auto simp: pow2_def)
  have "(of_int k :: rat) / pow2 (- int j) = of_int (k * 2 ^ j)"
    by (simp add: p)
  then have m: "round_half_even (of_int k / pow2 (- int j)) = k * 2 ^ j"
    by (simp only: round_half_even_int)
  have "to_double (of_int k) = of_int (k * 2 ^ j) * pow2 (- int j)"
    using assms(1) by (simp add: to_double_def e m Let_def)
  then show ?thesis
    by (simp add: p)
qed

lemma to_double_neg: "to_double (- x) = - to_double x"
  by (simp add: to_double_def Let_def)

lemma to_double_int:
  assumes "\<bar>k\<bar> < 2 ^ 53"
  shows "to_double (of_int k) = of_int k"
proof (cases "k = 0")
  case True
  then show ?thesis by (simp add: to_double_def)
next
  case False
  show ?thesis
  proof (cases "0 < k")
    case True
    with assms show ?thesis by (simp add: to_double_pos_int)
  next
    case False
    with \<open>k \<noteq> 0\<close> assms have "0 < - k" "- k < 2 ^ 53" by simp_all
    then have "to_double (of_int (- k)) = of_int (- k)" by (rule to_double_pos_int)
    then show ?thesis by (simp add: to_double_neg)
  qed
qed

lemma to_double_example: "to_double 1700000000 = 1700000000"
  using to_double_int [of 1700000000] by simp

lemma to_double_power2:
  assumes "52 \<le> n"
  shows "to_double (2 ^ n) = 2 ^ n"
proof -
  have b: "bitlen (2 ^ n) = int n + 1"
    using bitlen_pow2 [of 1 n] by (simp add: bitlen_alt_def)
  have "binade (of_int (2 ^ n)) = bitlen (2 ^ n) - 1"
    by (rule binade_int) simp
  then have e: "binade (2 ^ n) - 52 = int (n - 52)"
    using assms b by simp
  have p: "pow2 (int (n - 52)) = 2 ^ (n - 52)"
    by (simp add: pow2_def)
  have "(2::rat) ^ 52 * 2 ^ (n - 52) = 2 ^ (52 + (n - 52))"
    by (rule power_add [symmetric])
  also have "\<dots> = 2 ^ n"
    by (simp only: le_add_diff_inverse [OF assms])
  finally have s: "(2::rat) ^ n = 2 ^ 52 * 2 ^ (n - 52)"
    by (rule sym)
  then have q: "(2::rat) ^ n / 2 ^ (n - 52) = of_int (2 ^ 52)"
    by simp
  have m: "round_half_even ((2::rat) ^ n / 2 ^ (n - 52)) = 2 ^ 52"
    unfolding q by (rule round_half_even_int)
  have "to_double (2 ^ n) = of_int (2 ^ 52) * 2 ^ (n - 52)"
    by (simp add: to_double_def Let_def e p m)
  also have "\<dots> = 2 ^ n"
    by (simp add: s)
  finally show ?thesis .
qed

text \<open>
  Claim C7, amended. \<open>done_at\<close> is the integer 0 when \<open>doneOn\<close> is null. Otherwise, for
  \<open>doneOn\<close> within the integers that floats hold exactly (below \<open>2 ^ 53\<close> in magnitude,
  which covers every epoch-millisecond timestamp), it is \<open>doneOn\<close> divided by 1000 as a
  float: the float nearest to the quotient, and the quotient itself when \<open>doneOn\<close> is a
  whole number of seconds. For \<open>doneOn = 1700000000000\<close> it is \<open>1700000000.0\<close>.
\<close>

theorem Task_done_at_seconds:
  "(doneOn t = None \<longrightarrow> Task_done_at t = Inr (PyInt 0))
   \<and> (doneOn t' = Some d \<and> \<bar>d\<bar> < 2 ^ 53 \<longrightarrow>
        Task_done_at t' = Inr (PyFloat (to_double (of_int d / 1000))))
   \<and> (doneOn t' = Some d \<and> \<bar>d\<bar> < 2 ^ 53 \<and> 1000 dvd d \<longrightarrow>
        Task_done_at t' = Inr (PyFloat (of_int d / 1000)))
   \<and> (doneOn t'' = Some 1700000000000 \<longrightarrow> Task_done_at t'' = Inr (PyFloat 1700000000))"
proof -
  have small: "Task_done_at u = Inr (PyFloat (to_double (of_int k / 1000)))"
    if "doneOn u = Some k" and "\<bar>k\<bar> < 2 ^ 53" for u k
  proof -
    have "\<bar>rat_of_int k\<bar> < 2 ^ 53"
      using that(2) by (metis of_int_abs of_int_less_numeral_power_cancel_iff)
    also have "\<dots> < 2 ^ 1024" by simp
    finally have "\<not> 2 ^ 1024 \<le> \<bar>rat_of_int k\<bar>" by simp
    then show ?thesis
      using that by (simp add: Task_done_at_def float_of_int_def float_div_def to_double_int)
  qed
  have whole: "to_double (of_int k / 1000) = of_int k / 1000"
    if "\<bar>k\<bar> < 2 ^ 53" and "1000 dvd k" for k
  proof -
    from that(2) obtain q where q: "k = 1000 * q" by (rule dvdE)
    with that(1) have "\<bar>q\<bar> < 2 ^ 53" by (simp add: abs_mult)
    then have "to_double (of_int q) = of_int q" by (rule to_double_int)
    then show ?thesis by (simp add: q)
  qed
  show ?thesis
  proof (intro conjI impI)
    assume "doneOn t = None"
    then show "Task_done_at t = Inr (PyInt 0)"
      by (simp add: Task_done_at_def)
  next
    assume "doneOn t' = Some d \<and> \<bar>d\<bar> < 2 ^ 53"
    then show "Task_done_at t' = Inr (PyFloat (to_double (of_int d / 1000)))"
      using small by blast
  next
    assume h: "doneOn t' = Some d \<and> \<bar>d\<bar> < 2 ^ 53 \<and> 1000 dvd d"
    then have "Task_done_at t' = Inr (PyFloat (to_double (of_int d / 1000)))"
      using small by blast
    moreover have "to_double (of_int d / 1000) = of_int d / 1000"
      using h whole by blast
    ultimately show "Task_done_at t' = Inr (PyFloat (of_int d / 1000))"
      by (simp only:)
  next
    assume h: "doneOn t'' = Some 1700000000000"
    have "Task_done_at t'' = Inr (PyFloat (to_double (of_int 1700000000000 / 1000)))"
      by (rule small [OF h]) simp
    then show "Task_done_at t'' = Inr (PyFloat 1700000000)"
      by (simp add: to_double_example)
  qed
qed

theorem Task_done_at_seconds_witness:
  "Task_done_at (example_task ''1'' ''a'') = Inr (PyInt 0)
   \<and> Task_done_at ((example_task ''1'' ''a'')\<lparr>isDone := True, doneOn := Some 1700000000000\<rparr>)
       = Inr (PyFloat 1700000000)"
  using Task_done_at_seconds [where t = "example_task ''1'' ''a''"
      and t' = "(example_task ''1'' ''a'')\<lparr>isDone := True, doneOn := Some 1700000000000\<rparr>"
      and t'' = "(example_task ''1'' ''a'')\<lparr>isDone := True, doneOn := Some 1700000000000\<rparr>"
      and d = 1700000000000]
  by (simp add: example_task_def new_task_def to_double_example)

text \<open>
  Claim C7 as stated, for every task record, fails beyond that range. With
  \<open>doneOn = 2 ^ 1024\<close> the conversion of the left operand to a float overflows and
  \<open>done_at\<close> raises OverflowError. With \<open>doneOn = 2 ^ 53 + 3\<close> the left operand is
  rounded before the division, and the result is not the float nearest to
  \<open>doneOn / 1000\<close>.
\<close>

theorem Task_done_at_counterexample:
  "Task_done_at ((example_task ''1'' ''a'')\<lparr>isDone := True, doneOn := Some (2 ^ 1024)\<rparr>)
     = Inl OverflowError
   \<and> Task_done_at ((example_task ''1'' ''a'')\<lparr>isDone := True, doneOn := Some 9007199254740995\<rparr>)
     = Inr (PyFloat (2305843009213695 / 256))
   \<and> to_double (9007199254740995 / 1000) = 4611686018427389 / 512"
proof (intro conjI)
  have "to_double (2 ^ 1024) = 2 ^ 1024"
    by (rule to_double_power2) simp
  then have "float_of_int (2 ^ 1024) = Inl OverflowError"
    by (simp add: float_of_int_def)
  then show "Task_done_at ((example_task ''1'' ''a'')\<lparr>isDone := True, doneOn := Some (2 ^ 1024)\<rparr>)
     = Inl OverflowError"
    by (simp add: Task_done_at_def)
next
  show "Task_done_at ((example_task ''1'' ''a'')\<lparr>isDone := True, doneOn := Some 9007199254740995\<rparr>)
     = Inr (PyFloat (2305843009213695 / 256))"
    by code_simp
next
  show "to_double (9007199254740995 / 1000) = 4611686018427389 / 512"
    by code_simp
qed

end
